theory Spec2Isabelle
  imports Complex_Main
begin

section \<open>Numbers of the program\<close>

text \<open>
  The planner computes on JavaScript numbers. They are modelled twice. The first
  model takes them as exact reals extended with the three special values of IEEE
  arithmetic that the program can produce, both infinities and NaN; it states what the
  formulas of the program compute when no result is rounded. The second model, in the
  section on binary64 arithmetic, rounds the result of every operation to the nearest
  double, ties to even, with overflow to infinity; it is used to evaluate the program
  at inputs where rounding or overflow decides the result. The sign of zero is not
  modelled: a zero divisor of the program is a difference, a value of
  \<open>Math.max(_, 0)\<close> or a multiple of a zero input, and is taken to be the positive
  zero, which fixes the sign of a quotient by zero. Ages and year counts are
  integers, as the data model of the planner says.
\<close>

datatype jsnum = Fin real | PInf | NInf | NaN

instantiation jsnum :: "{plus, minus, uminus, times, inverse, ord}"
begin

fun uminus_jsnum :: "jsnum \<Rightarrow> jsnum" where
  "uminus_jsnum (Fin a) = Fin (- a)"
| "uminus_jsnum PInf = NInf"
| "uminus_jsnum NInf = PInf"
| "uminus_jsnum NaN = NaN"

fun plus_jsnum :: "jsnum \<Rightarrow> jsnum \<Rightarrow> jsnum" where
  "plus_jsnum NaN _ = NaN"
| "plus_jsnum _ NaN = NaN"
| "plus_jsnum (Fin a) (Fin b) = Fin (a + b)"
| "plus_jsnum PInf NInf = NaN"
| "plus_jsnum NInf PInf = NaN"
| "plus_jsnum PInf _ = PInf"
| "plus_jsnum _ PInf = PInf"
| "plus_jsnum NInf _ = NInf"
| "plus_jsnum _ NInf = NInf"

fun minus_jsnum :: "jsnum \<Rightarrow> jsnum \<Rightarrow> jsnum" where
  "minus_jsnum NaN _ = NaN"
| "minus_jsnum _ NaN = NaN"
| "minus_jsnum (Fin a) (Fin b) = Fin (a - b)"
| "minus_jsnum PInf PInf = NaN"
| "minus_jsnum NInf NInf = NaN"
| "minus_jsnum PInf _ = PInf"
| "minus_jsnum _ PInf = NInf"
| "minus_jsnum NInf _ = NInf"
| "minus_jsnum _ NInf = PInf"

fun times_jsnum :: "jsnum \<Rightarrow> jsnum \<Rightarrow> jsnum" where
  "times_jsnum NaN _ = NaN"
| "times_jsnum _ NaN = NaN"
| "times_jsnum (Fin a) (Fin b) = Fin (a * b)"
| "times_jsnum (Fin a) PInf = (if a = 0 then NaN else if 0 < a then PInf else NInf)"
| "times_jsnum (Fin a) NInf = (if a = 0 then NaN else if 0 < a then NInf else PInf)"
| "times_jsnum PInf (Fin b) = (if b = 0 then NaN else if 0 < b then PInf else NInf)"
| "times_jsnum NInf (Fin b) = (if b = 0 then NaN else if 0 < b then NInf else PInf)"
| "times_jsnum PInf PInf = PInf"
| "times_jsnum PInf NInf = NInf"
| "times_jsnum NInf PInf = NInf"
| "times_jsnum NInf NInf = PInf"

fun divide_jsnum :: "jsnum \<Rightarrow> jsnum \<Rightarrow> jsnum" where
  "divide_jsnum NaN _ = NaN"
| "divide_jsnum _ NaN = NaN"
| "divide_jsnum (Fin a) (Fin b) =
     (if b \<noteq> 0 then Fin (a / b)
      else if 0 < a then PInf else if a < 0 then NInf else NaN)"
| "divide_jsnum (Fin a) PInf = Fin 0"
| "divide_jsnum (Fin a) NInf = Fin 0"
| "divide_jsnum PInf (Fin b) = (if 0 \<le> b then PInf else NInf)"
| "divide_jsnum NInf (Fin b) = (if 0 \<le> b then NInf else PInf)"
| "divide_jsnum PInf PInf = NaN"
| "divide_jsnum PInf NInf = NaN"
| "divide_jsnum NInf PInf = NaN"
| "divide_jsnum NInf NInf = NaN"

fun inverse_jsnum :: "jsnum \<Rightarrow> jsnum" where
  "inverse_jsnum NaN = NaN"
| "inverse_jsnum (Fin b) = (if b \<noteq> 0 then Fin (1 / b) else PInf)"
| "inverse_jsnum PInf = Fin 0"
| "inverse_jsnum NInf = Fin 0"

fun less_eq_jsnum :: "jsnum \<Rightarrow> jsnum \<Rightarrow> bool" where
  "less_eq_jsnum NaN _ = False"
| "less_eq_jsnum _ NaN = False"
| "less_eq_jsnum (Fin a) (Fin b) = (a \<le> b)"
| "less_eq_jsnum NInf _ = True"
| "less_eq_jsnum _ PInf = True"
| "less_eq_jsnum PInf _ = False"
| "less_eq_jsnum _ NInf = False"

fun less_jsnum :: "jsnum \<Rightarrow> jsnum \<Rightarrow> bool" where
  "less_jsnum NaN _ = False"
| "less_jsnum _ NaN = False"
| "less_jsnum (Fin a) (Fin b) = (a < b)"
| "less_jsnum PInf _ = False"
| "less_jsnum _ NInf = False"
| "less_jsnum NInf _ = True"
| "less_jsnum _ PInf = True"

instance ..

end

text \<open>The strict equality \<open>===\<close> on numbers: NaN equals nothing.\<close>

definition js_eq :: "jsnum \<Rightarrow> jsnum \<Rightarrow> bool" where
  "js_eq a b = (a \<noteq> NaN \<and> a = b)"

text \<open>An integer (an age, a number of years) used as a number.\<close>

definition num :: "int \<Rightarrow> jsnum" where
  "num i = Fin (of_int i)"

definition Math_max :: "jsnum \<Rightarrow> jsnum \<Rightarrow> jsnum" where
  "Math_max a b = (if a = NaN \<or> b = NaN then NaN else if a \<le> b then b else a)"

definition Math_min :: "jsnum \<Rightarrow> jsnum \<Rightarrow> jsnum" where
  "Math_min a b = (if a = NaN \<or> b = NaN then NaN else if a \<le> b then a else b)"

text \<open>
  \<open>Math.pow\<close> at an integer exponent (every exponent of the program is a difference
  of integer years): the exponent 0 gives 1 for every base, a zero base at a negative
  exponent gives infinity.
\<close>

definition Math_pow :: "jsnum \<Rightarrow> int \<Rightarrow> jsnum" where
  "Math_pow x n =
     (if n = 0 then Fin 1
      else case x of
        NaN \<Rightarrow> NaN
      | Fin a \<Rightarrow>
          if 0 < n then Fin (a ^ nat n)
          else if a = 0 then PInf
          else Fin (1 / a ^ nat (- n))
      | PInf \<Rightarrow> if 0 < n then PInf else Fin 0
      | NInf \<Rightarrow> if 0 < n then (if even n then PInf else NInf) else Fin 0)"

section \<open>Utilities and time-value functions\<close>

definition clamp :: "jsnum \<Rightarrow> jsnum \<Rightarrow> jsnum \<Rightarrow> jsnum" where
  "clamp n lo hi = Math_max lo (Math_min hi n)"

definition annuityCorpus :: "jsnum \<Rightarrow> jsnum \<Rightarrow> int \<Rightarrow> jsnum" where
  "annuityCorpus annualNeedAtRetire rAfter years =
     (if years \<le> 0 then Fin 0
      else if js_eq rAfter (Fin 0) then annualNeedAtRetire * num years
      else let factor = (Fin 1 - Math_pow (Fin 1 + rAfter) (- years)) / rAfter
           in annualNeedAtRetire * factor)"

definition fv :: "jsnum \<Rightarrow> jsnum \<Rightarrow> int \<Rightarrow> jsnum" where
  "fv pv r n = pv * Math_pow (Fin 1 + r) n"

definition fvSeries :: "jsnum \<Rightarrow> jsnum \<Rightarrow> int \<Rightarrow> jsnum" where
  "fvSeries pmtPerYear r n =
     (if n \<le> 0 then Fin 0
      else if js_eq r (Fin 0) then pmtPerYear * num n
      else pmtPerYear * ((Math_pow (Fin 1 + r) n - Fin 1) / r))"

definition requiredSavingsPerYear :: "jsnum \<Rightarrow> jsnum \<Rightarrow> jsnum \<Rightarrow> int \<Rightarrow> jsnum" where
  "requiredSavingsPerYear targetFV assets r years =
     (let fvAssets = fv assets r years;
          need = Math_max (targetFV - fvAssets) (Fin 0)
      in if js_eq need (Fin 0) then Fin 0
         else if js_eq r (Fin 0) then need / num years
         else (need * r) / (Math_pow (Fin 1 + r) years - Fin 1))"

definition pmtMonthly :: "jsnum \<Rightarrow> jsnum \<Rightarrow> int \<Rightarrow> jsnum" where
  "pmtMonthly principal' rateYear years =
     (let r = rateYear / Fin 12;
          n = years * 12
      in if js_eq r (Fin 0) then principal' / num n
         else (principal' * r) / (Fin 1 - Math_pow (Fin 1 + r) (- n)))"


section \<open>Additional number functions used by the sampler\<close>

definition Math_log :: "jsnum \<Rightarrow> jsnum" where
  "Math_log x =
     (case x of
        NaN \<Rightarrow> NaN
      | Fin a \<Rightarrow> if 0 < a then Fin (ln a) else if a = 0 then NInf else NaN
      | PInf \<Rightarrow> PInf
      | NInf \<Rightarrow> NaN)"

definition Math_sqrt :: "jsnum \<Rightarrow> jsnum" where
  "Math_sqrt x =
     (case x of
        NaN \<Rightarrow> NaN
      | Fin a \<Rightarrow> if 0 \<le> a then Fin (sqrt a) else NaN
      | PInf \<Rightarrow> PInf
      | NInf \<Rightarrow> NaN)"

definition Math_cos :: "jsnum \<Rightarrow> jsnum" where
  "Math_cos x = (case x of Fin a \<Rightarrow> Fin (cos a) | _ \<Rightarrow> NaN)"

definition Math_PI :: jsnum where
  "Math_PI = Fin pi"

section \<open>The planner's state\<close>

text \<open>
  The component keeps its parameters in state variables; they are collected in one
  record. Every numeric input is a finite number. The three ages are whole years; the
  number of trials \<open>runs\<close> is any number (the page clamps it to the range from 100 to
  3000 and does not round it). \<open>thisYear\<close> stands for the calendar year read from the
  clock (\<open>new Date().getFullYear()\<close>).
\<close>

record goal =
  goal_id :: string
  goal_name :: string
  goal_target :: real
  goal_year :: int
  goal_priority :: real

record loan =
  loan_principal :: real
  loan_rate :: real
  loan_years :: int

record inputs =
  age :: int
  retireAge :: int
  lifeExpectancy :: int
  inflation :: real
  returnBefore :: real
  returnAfter :: real
  incomeMain :: real
  incomeSide :: real
  expBasic :: real
  expHealth :: real
  expLifestyle :: real
  currentAssets :: real
  currentDebt :: real
  currentSavingPerMonth :: real
  pvdRate :: real
  mortgage :: loan
  carLoan :: loan
  goals :: "goal list"
  lifeCoverHave :: real
  ciCoverHave :: real
  healthBudget :: real
  bearShock :: real
  stdevBefore :: real
  stdevAfter :: real
  runs :: real
  thisYear :: int

section \<open>Readiness calculator\<close>

definition mortgagePmt :: "inputs \<Rightarrow> jsnum" where
  "mortgagePmt inp =
     pmtMonthly (Fin (loan_principal (mortgage inp))) (Fin (loan_rate (mortgage inp)))
       (loan_years (mortgage inp))"

definition carPmt :: "inputs \<Rightarrow> jsnum" where
  "carPmt inp =
     pmtMonthly (Fin (loan_principal (carLoan inp))) (Fin (loan_rate (carLoan inp)))
       (loan_years (carLoan inp))"

definition incomeYear :: "inputs \<Rightarrow> jsnum" where
  "incomeYear inp = (Fin (incomeMain inp) + Fin (incomeSide inp)) * Fin 12"

definition monthlyExpense :: "inputs \<Rightarrow> jsnum" where
  "monthlyExpense inp = Fin (expBasic inp) + Fin (expHealth inp) + Fin (expLifestyle inp)"

definition yearsToRetire :: "inputs \<Rightarrow> int" where
  "yearsToRetire inp = max (retireAge inp - age inp) 0"

definition yearsInRetirement :: "inputs \<Rightarrow> int" where
  "yearsInRetirement inp = max (lifeExpectancy inp - retireAge inp) 0"

definition annualExpenseToday :: "inputs \<Rightarrow> jsnum" where
  "annualExpenseToday inp = monthlyExpense inp * Fin 12"

definition annualExpenseAtRetire :: "inputs \<Rightarrow> jsnum" where
  "annualExpenseAtRetire inp =
     annualExpenseToday inp * Math_pow (Fin 1 + Fin (inflation inp)) (yearsToRetire inp)"

definition targetCorpus :: "inputs \<Rightarrow> jsnum" where
  "targetCorpus inp =
     annuityCorpus (annualExpenseAtRetire inp) (Fin (returnAfter inp)) (yearsInRetirement inp)"

text \<open>The expression \<open>Math.max(currentAssets - currentDebt, 0)\<close>, which the component repeats.\<close>

definition netAssets :: "inputs \<Rightarrow> jsnum" where
  "netAssets inp = Math_max (Fin (currentAssets inp) - Fin (currentDebt inp)) (Fin 0)"

definition yearlySaving :: "inputs \<Rightarrow> jsnum" where
  "yearlySaving inp = Fin (currentSavingPerMonth inp) * Fin 12 + incomeYear inp * Fin (pvdRate inp)"

definition spendGoals :: "inputs \<Rightarrow> jsnum" where
  "spendGoals inp =
     foldl (\<lambda>a b. a + b) (Fin 0)
       (map (\<lambda>g. Fin (goal_target g)
                 * Math_pow (Fin 1 + Fin (inflation inp)) (goal_year g - thisYear inp))
          (filter (\<lambda>g. goal_year g \<le> thisYear inp + yearsToRetire inp) (goals inp)))"

definition projectedFVAtRetire :: "inputs \<Rightarrow> jsnum" where
  "projectedFVAtRetire inp =
     (let fromAssets = fv (netAssets inp) (Fin (returnBefore inp)) (yearsToRetire inp);
          fromFutureSavings = fvSeries (yearlySaving inp) (Fin (returnBefore inp)) (yearsToRetire inp)
      in Math_max (fromAssets + fromFutureSavings - spendGoals inp) (Fin 0))"

definition requiredSavingPerYear :: "inputs \<Rightarrow> jsnum" where
  "requiredSavingPerYear inp =
     requiredSavingsPerYear (targetCorpus inp) (netAssets inp) (Fin (returnBefore inp))
       (yearsToRetire inp)"

definition requiredSavingPerMonth :: "inputs \<Rightarrow> jsnum" where
  "requiredSavingPerMonth inp = requiredSavingPerYear inp / Fin 12"

definition readiness :: "inputs \<Rightarrow> jsnum" where
  "readiness inp =
     (if Fin 0 < targetCorpus inp then projectedFVAtRetire inp / targetCorpus inp else Fin 0)"

section \<open>Protection gap\<close>

definition childrenCountGuess :: "jsnum \<Rightarrow> bool" where
  "childrenCountGuess m = (Fin 40000 < m)"

definition educationReserveGuess :: "jsnum \<Rightarrow> jsnum" where
  "educationReserveGuess m = (if childrenCountGuess m then Fin 1000000 else Fin 0)"

definition yearsToProtect :: "inputs \<Rightarrow> jsnum" where
  "yearsToProtect inp =
     clamp (if childrenCountGuess (monthlyExpense inp) then Fin 20 else Fin 10) (Fin 5) (Fin 25)"

definition lifeNeed :: "inputs \<Rightarrow> jsnum" where
  "lifeNeed inp =
     Math_max
       (incomeYear inp * yearsToProtect inp
          + (Fin (loan_principal (mortgage inp)) + Fin (loan_principal (carLoan inp)))
          + educationReserveGuess (monthlyExpense inp)
          - netAssets inp - Fin (lifeCoverHave inp))
       (Fin 0)"

definition ciNeed :: "inputs \<Rightarrow> jsnum" where
  "ciNeed inp = Math_max (incomeYear inp * Fin 3 - Fin (ciCoverHave inp)) (Fin 0)"

section \<open>Deterministic wealth curve\<close>

record point =
  pt_age :: int
  pt_wealth :: jsnum
  pt_draw :: "jsnum option"

text \<open>The savings added in every accumulation year, as the two simulation loops write it.\<close>

definition savingsStep :: "inputs \<Rightarrow> jsnum" where
  "savingsStep inp =
     (Fin (currentSavingPerMonth inp) + incomeYear inp * Fin (pvdRate inp) / Fin 12) * Fin 12"

text \<open>The withdrawal of a retirement year, \<open>need\<close> in both loops.\<close>

definition need_at :: "inputs \<Rightarrow> int \<Rightarrow> jsnum" where
  "need_at inp currentAge =
     (let yearsFromRetire = currentAge - retireAge inp
      in annualExpenseAtRetire inp * Math_pow (Fin 1 + Fin (inflation inp)) yearsFromRetire)"

function chartLoop :: "inputs \<Rightarrow> int \<Rightarrow> jsnum \<Rightarrow> point list \<Rightarrow> point list" where
  "chartLoop inp y wealth data =
     (if y \<le> lifeExpectancy inp - age inp then
        (let currentAge = age inp + y in
         if currentAge < retireAge inp then
           (let wealth1 = wealth * (Fin 1 + Fin (returnBefore inp)) + savingsStep inp
            in chartLoop inp (y + 1) wealth1
                 (data @ [\<lparr>pt_age = currentAge, pt_wealth = Math_max wealth1 (Fin 0),
                           pt_draw = None\<rparr>]))
         else
           (let need = need_at inp currentAge;
                wealth1 = wealth * (Fin 1 + Fin (returnAfter inp)) - need
            in chartLoop inp (y + 1) wealth1
                 (data @ [\<lparr>pt_age = currentAge, pt_wealth = Math_max wealth1 (Fin 0),
                           pt_draw = Some need\<rparr>])))
      else data)"
  by pat_completeness auto
termination
  by (relation "measure (\<lambda>(inp, y, wealth, data). nat (lifeExpectancy inp - age inp + 1 - y))")
    auto

declare chartLoop.simps [simp del]

definition chartData :: "inputs \<Rightarrow> point list" where
  "chartData inp = chartLoop inp 0 (netAssets inp) []"

section \<open>Random sampling and the Monte Carlo estimator\<close>

text \<open>
  \<open>Math.random\<close> is modelled by an arbitrary sequence \<open>src\<close> of numbers and a
  position in it: a call returns \<open>src p\<close> and moves to \<open>Suc p\<close>. The loop
  \<open>while (u === 0) u = Math.random()\<close> need not end (the sequence may be zero
  from some position on), so it returns an option.
\<close>

partial_function (option) rejectZero :: "(nat \<Rightarrow> real) \<Rightarrow> real \<Rightarrow> nat \<Rightarrow> (real \<times> nat) option" where
  "rejectZero src u p = (if u = 0 then rejectZero src (src p) (Suc p) else Some (u, p))"

text \<open>The two rejection loops of \<open>randomNormal\<close>, both started at 0.\<close>

definition uniformDraws :: "(nat \<Rightarrow> real) \<Rightarrow> nat \<Rightarrow> (real \<times> real \<times> nat) option" where
  "uniformDraws src p =
     (case rejectZero src 0 p of
        None \<Rightarrow> None
      | Some (u, p1) \<Rightarrow>
          (case rejectZero src 0 p1 of
             None \<Rightarrow> None
           | Some (v, p2) \<Rightarrow> Some (u, v, p2)))"

definition boxMuller :: "real \<Rightarrow> real \<Rightarrow> jsnum" where
  "boxMuller u v =
     Math_sqrt (Fin (- 2) * Math_log (Fin u)) * Math_cos (Fin 2 * Math_PI * Fin v)"

definition randomNormal :: "(nat \<Rightarrow> real) \<Rightarrow> jsnum \<Rightarrow> jsnum \<Rightarrow> nat \<Rightarrow> (jsnum \<times> nat) option" where
  "randomNormal src mean stdev p =
     (case uniformDraws src p of
        None \<Rightarrow> None
      | Some (u, v, p2) \<Rightarrow>
          (let z = boxMuller u v in Some (mean + z * stdev, p2)))"







section \<open>Reference notions for the estimator\<close>

text \<open>
  These definitions are not part of the program; the statements about the estimator
  are phrased with them. A source is fair when it never stays at zero for ever, which
  is what makes both rejection loops end.
\<close>

definition fairSource :: "(nat \<Rightarrow> real) \<Rightarrow> bool" where
  "fairSource src = (\<forall>p. \<exists>n. p \<le> n \<and> src n \<noteq> 0)"





section \<open>Binary64 arithmetic\<close>

text \<open>
  Rounding to the nearest double. \<open>ilog2 x\<close> is the binary exponent of a positive
  \<open>x\<close>, found by halving or doubling at most 1100 times; below the smallest normal
  exponent -1022 the spacing of the subnormal numbers is used. A magnitude of at
  least \<open>2^1024 - 2^970\<close>, the midpoint above the largest double, overflows.
\<close>

definition pow2 :: "int \<Rightarrow> real" where
  "pow2 e = (if 0 \<le> e then 2 ^ nat e else 1 / 2 ^ nat (- e))"

fun lg_up :: "nat \<Rightarrow> real \<Rightarrow> int" where
  "lg_up 0 x = 0"
| "lg_up (Suc n) x = (if x < 2 then 0 else lg_up n (x / 2) + 1)"

fun lg_down :: "nat \<Rightarrow> real \<Rightarrow> int" where
  "lg_down 0 x = 0"
| "lg_down (Suc n) x = (if 1 \<le> x then 0 else lg_down n (x * 2) - 1)"

definition ilog2 :: "real \<Rightarrow> int" where
  "ilog2 x = (if 1 \<le> x then lg_up 1100 x else lg_down 1100 x)"

definition round_even :: "real \<Rightarrow> int" where
  "round_even r =
     (let f = \<lfloor>r\<rfloor>; d = r - of_int f
      in if d < 1 / 2 then f else if 1 / 2 < d then f + 1 else if even f then f else f + 1)"

definition rnd :: "jsnum \<Rightarrow> jsnum" where
  "rnd v =
     (case v of
        Fin x \<Rightarrow>
          if x = 0 then Fin 0
          else if pow2 1024 - pow2 970 \<le> \<bar>x\<bar> then (if 0 < x then PInf else NInf)
          else (let e = max (ilog2 \<bar>x\<bar>) (- 1022); u = pow2 (e - 52)
                in Fin (of_int (round_even (x / u)) * u))
      | _ \<Rightarrow> v)"

text \<open>
  The operations of the program on doubles: the exact result, rounded once.
  \<open>Math.pow\<close> is taken to be correctly rounded; the language leaves its last bit to
  the implementation, but not its value at the exponents 0 and 1, nor that it is
  infinite when the true power overflows.
\<close>

definition add64 :: "jsnum \<Rightarrow> jsnum \<Rightarrow> jsnum" where
  "add64 a b = rnd (a + b)"

definition sub64 :: "jsnum \<Rightarrow> jsnum \<Rightarrow> jsnum" where
  "sub64 a b = rnd (a - b)"

definition mul64 :: "jsnum \<Rightarrow> jsnum \<Rightarrow> jsnum" where
  "mul64 a b = rnd (a * b)"

definition div64 :: "jsnum \<Rightarrow> jsnum \<Rightarrow> jsnum" where
  "div64 a b = rnd (a / b)"

definition pow64 :: "jsnum \<Rightarrow> int \<Rightarrow> jsnum" where
  "pow64 x n = rnd (Math_pow x n)"

text \<open>
  The functions of the program again, with every operation rounded. The numbers of
  the state are doubles in the program; the statements below use them only at
  values that are.
\<close>

definition fv64 :: "jsnum \<Rightarrow> jsnum \<Rightarrow> int \<Rightarrow> jsnum" where
  "fv64 pv r n = mul64 pv (pow64 (add64 (Fin 1) r) n)"

definition fvSeries64 :: "jsnum \<Rightarrow> jsnum \<Rightarrow> int \<Rightarrow> jsnum" where
  "fvSeries64 pmtPerYear r n =
     (if n \<le> 0 then Fin 0
      else if js_eq r (Fin 0) then mul64 pmtPerYear (num n)
      else mul64 pmtPerYear (div64 (sub64 (pow64 (add64 (Fin 1) r) n) (Fin 1)) r))"


definition incomeYear64 :: "inputs \<Rightarrow> jsnum" where
  "incomeYear64 inp = mul64 (add64 (Fin (incomeMain inp)) (Fin (incomeSide inp))) (Fin 12)"




definition netAssets64 :: "inputs \<Rightarrow> jsnum" where
  "netAssets64 inp = Math_max (sub64 (Fin (currentAssets inp)) (Fin (currentDebt inp))) (Fin 0)"

definition yearlySaving64 :: "inputs \<Rightarrow> jsnum" where
  "yearlySaving64 inp =
     add64 (mul64 (Fin (currentSavingPerMonth inp)) (Fin 12))
       (mul64 (incomeYear64 inp) (Fin (pvdRate inp)))"

definition spendGoals64 :: "inputs \<Rightarrow> jsnum" where
  "spendGoals64 inp =
     foldl (\<lambda>a b. add64 a b) (Fin 0)
       (map (\<lambda>g. mul64 (Fin (goal_target g))
                 (pow64 (add64 (Fin 1) (Fin (inflation inp))) (goal_year g - thisYear inp)))
          (filter (\<lambda>g. goal_year g \<le> thisYear inp + yearsToRetire inp) (goals inp)))"

definition projectedFVAtRetire64 :: "inputs \<Rightarrow> jsnum" where
  "projectedFVAtRetire64 inp =
     (let fromAssets = fv64 (netAssets64 inp) (Fin (returnBefore inp)) (yearsToRetire inp);
          fromFutureSavings =
            fvSeries64 (yearlySaving64 inp) (Fin (returnBefore inp)) (yearsToRetire inp)
      in Math_max (sub64 (add64 fromAssets fromFutureSavings) (spendGoals64 inp)) (Fin 0))"






section \<open>Concrete parameter sets\<close>

text \<open>
  The initial state of the component. The goal names are Thai text in the program
  and are transliterated here; no computation reads them. The clock year is fixed.
\<close>

definition defaultInputs :: inputs where
  "defaultInputs =
     \<lparr>age = 36, retireAge = 60, lifeExpectancy = 90,
      inflation = 3 / 100, returnBefore = 6 / 100, returnAfter = 35 / 1000,
      incomeMain = 60000, incomeSide = 10000,
      expBasic = 30000, expHealth = 4000, expLifestyle = 8000,
      currentAssets = 0, currentDebt = 0, currentSavingPerMonth = 0,
      pvdRate = 5 / 100,
      mortgage = \<lparr>loan_principal = 2000000, loan_rate = 55 / 1000, loan_years = 25\<rparr>,
      carLoan = \<lparr>loan_principal = 400000, loan_rate = 6 / 100, loan_years = 5\<rparr>,
      goals =
        [\<lparr>goal_id = ''g1'', goal_name = ''emergency fund'', goal_target = 120000,
          goal_year = 2025, goal_priority = 10\<rparr>,
         \<lparr>goal_id = ''g2'', goal_name = ''travel'', goal_target = 80000,
          goal_year = 2026, goal_priority = 3\<rparr>],
      lifeCoverHave = 0, ciCoverHave = 0, healthBudget = 0,
      bearShock = - (2 / 10), stdevBefore = 1 / 10, stdevAfter = 5 / 100,
      runs = 500, thisYear = 2025\<rparr>"

text \<open>A person who retires now and plans for two more years.\<close>

definition shortRetirement :: inputs where
  "shortRetirement = defaultInputs\<lparr>age := 60, lifeExpectancy := 62\<rparr>"


text \<open>The person who retires now, with a pre-retirement return of -1 percent.\<close>

definition retireNowInputs :: inputs where
  "retireNowInputs = shortRetirement\<lparr>returnBefore := - (1 / 100)\<rparr>"

text \<open>
  Multiplying every currency amount of the state that the readiness calculator reads
  (incomes, expense components, assets, debt, monthly saving, goal targets) and the
  existing cover amounts by \<open>k\<close>.
\<close>

definition scaleCurrency :: "real \<Rightarrow> inputs \<Rightarrow> inputs" where
  "scaleCurrency k inp =
     inp\<lparr>incomeMain := k * incomeMain inp,
         incomeSide := k * incomeSide inp,
         expBasic := k * expBasic inp,
         expHealth := k * expHealth inp,
         expLifestyle := k * expLifestyle inp,
         currentAssets := k * currentAssets inp,
         currentDebt := k * currentDebt inp,
         currentSavingPerMonth := k * currentSavingPerMonth inp,
         goals := map (\<lambda>g. g\<lparr>goal_target := k * goal_target g\<rparr>) (goals inp),
         lifeCoverHave := k * lifeCoverHave inp,
         ciCoverHave := k * ciCoverHave inp\<rparr>"



text \<open>
  A person one year before retirement with a monthly income of 15000, a contribution
  rate of 7 percent (the double nearest to 0.07), no return and no goals.
\<close>

definition roundingInputs :: inputs where
  "roundingInputs =
     defaultInputs\<lparr>age := 59, incomeMain := 15000, incomeSide := 0,
       pvdRate := 1261007895663739 / 18014398509481984, returnBefore := 0, goals := []\<rparr>"


section \<open>Zero-rate forms\<close>

lemma fvSeries_zero_rate: "0 < n \<Longrightarrow> fvSeries (Fin p) (Fin 0) n = Fin (p * of_int n)"
  by (simp add: fvSeries_def js_eq_def num_def)

lemma annuityCorpus_zero_rate: "0 < n \<Longrightarrow> annuityCorpus (Fin x) (Fin 0) n = Fin (x * of_int n)"
  by (simp add: annuityCorpus_def js_eq_def num_def)

lemma pmtMonthly_zero_rate:
  "0 < y \<Longrightarrow> pmtMonthly (Fin P) (Fin 0) y = Fin (P / (of_int y * 12))"
  by (simp add: pmtMonthly_def js_eq_def num_def)

text \<open>
  C6. At rate 0 the time-value functions reduce to their linear forms:
  \<open>fvSeries(p, 0, n) = p * n\<close> and \<open>annuityCorpus(X, 0, n) = X * n\<close> for every \<open>n > 0\<close>,
  \<open>pmtMonthly(P, 0, y) = P / (y * 12)\<close> for every \<open>y > 0\<close>, and in particular
  \<open>pmtMonthly(120000, 0, 10) = 1000\<close>.
\<close>

theorem zero_rate_linear_forms:
  "(0 < n \<longrightarrow> fvSeries (Fin p) (Fin 0) n = Fin (p * of_int n)
            \<and> annuityCorpus (Fin x) (Fin 0) n = Fin (x * of_int n))
   \<and> (0 < y \<longrightarrow> pmtMonthly (Fin P) (Fin 0) y = Fin (P / (of_int y * 12)))
   \<and> pmtMonthly (Fin 120000) (Fin 0) 10 = Fin 1000"
  using fvSeries_zero_rate [of n p] annuityCorpus_zero_rate [of n x]
    pmtMonthly_zero_rate [of y P] pmtMonthly_zero_rate [of 10 120000]
  by simp

theorem zero_rate_linear_forms_witness:
  "0 < (5::int) \<and> fvSeries (Fin 7) (Fin 0) 5 = Fin 35
   \<and> annuityCorpus (Fin 3) (Fin 0) 5 = Fin 15
   \<and> 0 < (10::int) \<and> pmtMonthly (Fin 240000) (Fin 0) 10 = Fin 2000"
  using zero_rate_linear_forms [of 5 7 3 10 240000]
  by simp

section \<open>Finite values of the derived quantities\<close>

lemma Math_pow_nonneg: "0 \<le> n \<Longrightarrow> Math_pow (Fin a) n = Fin (a ^ nat n)"
  by (simp add: Math_pow_def)

lemma Math_max_Fin: "Math_max (Fin a) (Fin b) = Fin (max a b)"
  by (simp add: Math_max_def max_def)


lemma annualExpenseAtRetire_Fin:
  "annualExpenseAtRetire inp =
     Fin ((expBasic inp + expHealth inp + expLifestyle inp) * 12 * (1 + inflation inp) ^ nat (yearsToRetire inp))"
  by (simp add: annualExpenseAtRetire_def annualExpenseToday_def monthlyExpense_def
      Math_pow_nonneg yearsToRetire_def)


lemma netAssets_Fin: "netAssets inp = Fin (max (currentAssets inp - currentDebt inp) 0)"
  by (simp add: netAssets_def Math_max_Fin)

text \<open>
  C7. The savings added in each accumulation year of both simulation loops,
  \<open>(currentSavingPerMonth + incomeYear * pvdRate / 12) * 12\<close>, equals the yearly
  saving of the readiness calculator, \<open>currentSavingPerMonth * 12 + incomeYear * pvdRate\<close>,
  for every input (in exact arithmetic).
\<close>

theorem savings_terms_agree: "savingsStep inp = yearlySaving inp"
  by (simp add: savingsStep_def yearlySaving_def incomeYear_def algebra_simps)

section \<open>Rounding of concrete numbers\<close>

lemma lg_up_unfold:
  "lg_up n x = (if n = 0 \<or> x < 2 then 0 else lg_up (n - 1) (x / 2) + 1)"
  by (cases n) simp_all

lemma lg_down_unfold:
  "lg_down n x = (if n = 0 \<or> 1 \<le> x then 0 else lg_down (n - 1) (x * 2) - 1)"
  by (cases n) simp_all

lemmas rnd_eval = rnd_def ilog2_def round_even_def pow2_def lg_up_unfold lg_down_unfold Let_def


lemma lg_down_eq:
  "1 / 2 ^ Suc k \<le> x \<Longrightarrow> x < 1 / 2 ^ k \<Longrightarrow> Suc k \<le> n \<Longrightarrow> lg_down n x = - int (Suc k)"
proof (induction n arbitrary: x k)
  case 0
  then show ?case by simp
next
  case (Suc n)
  have "1 / 2 ^ k \<le> (1::real)" by simp
  with Suc.prems(2) have x1: "x < 1" by linarith
  show ?case
  proof (cases k)
    case 0
    with Suc.prems have "1 \<le> x * 2" by simp
    then have "lg_down n (x * 2) = 0" by (cases n) simp_all
    then show ?thesis using x1 0 by simp
  next
    case (Suc j)
    have "lg_down n (x * 2) = - int (Suc j)"
      using Suc.prems Suc by (intro Suc.IH) (simp_all add: field_simps)
    then show ?thesis using x1 Suc by simp
  qed
qed


lemma ilog2_down:
  "1 / 2 ^ Suc k \<le> x \<Longrightarrow> x < 1 / 2 ^ k \<Longrightarrow> Suc k \<le> 1100 \<Longrightarrow> ilog2 x = - int (Suc k)"
proof -
  assume a: "1 / 2 ^ Suc k \<le> x" "x < 1 / 2 ^ k" "Suc k \<le> 1100"
  have "1 / 2 ^ k \<le> (1::real)" by simp
  with a(2) have "\<not> 1 \<le> x" by linarith
  then show ?thesis using lg_down_eq[OF a] by (simp add: ilog2_def)
qed

lemma round_even_near: "\<bar>r - of_int (round_even r)\<bar> \<le> 1 / 2"
  by (simp add: round_even_def Let_def)




lemma rnd_samples:
  "rnd (Fin (1 - 1 / 2 ^ 55)) = Fin 1"
  "rnd (Fin (1 / 3)) = Fin (6004799503160661 / 18014398509481984)"
  "rnd (Fin (7 / 100)) = Fin (1261007895663739 / 18014398509481984)"
  by (simp_all add: rnd_eval)




lemmas ops64 = add64_def sub64_def mul64_def div64_def pow64_def



lemma roundingInputs_projected64: "projectedFVAtRetire64 roundingInputs = Fin (12600 + 1 / 2 ^ 39)"
  by (simp add: projectedFVAtRetire64_def fv64_def fvSeries64_def netAssets64_def
      yearlySaving64_def incomeYear64_def spendGoals64_def yearsToRetire_def ops64
      Math_pow_def Math_max_def js_eq_def num_def roundingInputs_def defaultInputs_def rnd_eval)

lemma roundingInputs_scaled_projected64: "projectedFVAtRetire64 (scaleCurrency 3 roundingInputs) = Fin 37800"
  by (simp add: projectedFVAtRetire64_def fv64_def fvSeries64_def netAssets64_def
      yearlySaving64_def incomeYear64_def spendGoals64_def yearsToRetire_def ops64
      Math_pow_def Math_max_def js_eq_def num_def roundingInputs_def defaultInputs_def
      scaleCurrency_def rnd_eval)




section \<open>The deterministic wealth curve\<close>

lemma chartLoop_unfold:
  "y \<le> lifeExpectancy inp - age inp \<Longrightarrow>
   chartLoop inp y w data =
     (if age inp + y < retireAge inp then
        chartLoop inp (y + 1) (w * (Fin 1 + Fin (returnBefore inp)) + savingsStep inp)
          (data @ [\<lparr>pt_age = age inp + y,
                    pt_wealth = Math_max (w * (Fin 1 + Fin (returnBefore inp)) + savingsStep inp) (Fin 0),
                    pt_draw = None\<rparr>])
      else
        chartLoop inp (y + 1) (w * (Fin 1 + Fin (returnAfter inp)) - need_at inp (age inp + y))
          (data @ [\<lparr>pt_age = age inp + y,
                    pt_wealth = Math_max (w * (Fin 1 + Fin (returnAfter inp)) - need_at inp (age inp + y)) (Fin 0),
                    pt_draw = Some (need_at inp (age inp + y))\<rparr>]))"
  by (subst chartLoop.simps) (simp only: Let_def if_True)

lemma chartLoop_done:
  "\<not> y \<le> lifeExpectancy inp - age inp \<Longrightarrow> chartLoop inp y w data = data"
  by (subst chartLoop.simps) simp


lemma chartLoop_ages:
  "map pt_age (chartLoop inp y w data) = map pt_age data @ [age inp + y..lifeExpectancy inp]"
proof (induction inp y w data rule: chartLoop.induct)
  case (1 inp y wealth data)
  show ?case
  proof (cases "y \<le> lifeExpectancy inp - age inp")
    case True
    then have u: "[age inp + y..lifeExpectancy inp]
        = (age inp + y) # [age inp + (y + 1)..lifeExpectancy inp]"
      by (simp add: upto_rec1 add.assoc)
    show ?thesis
    proof (cases "age inp + y < retireAge inp")
      case a: True
      show ?thesis
        unfolding chartLoop_unfold[OF True]
        using a "1.IH"(1)[OF True refl a refl] u by simp
    next
      case a: False
      show ?thesis
        unfolding chartLoop_unfold[OF True]
        using a "1.IH"(2)[OF True refl a refl refl] u by simp
    qed
  next
    case False
    then show ?thesis by (simp add: chartLoop_done)
  qed
qed

lemma chartLoop_draw:
  "\<forall>pt\<in>set data. (pt_draw pt \<noteq> None) = (retireAge inp \<le> pt_age pt) \<Longrightarrow>
   \<forall>pt\<in>set (chartLoop inp y w data). (pt_draw pt \<noteq> None) = (retireAge inp \<le> pt_age pt)"
proof (induction inp y w data rule: chartLoop.induct)
  case (1 inp y wealth data)
  show ?case
  proof (cases "y \<le> lifeExpectancy inp - age inp")
    case True
    show ?thesis
    proof (cases "age inp + y < retireAge inp")
      case a: True
      have "\<forall>pt\<in>set (chartLoop inp (y + 1)
              (wealth * (Fin 1 + Fin (returnBefore inp)) + savingsStep inp)
              (data @ [\<lparr>pt_age = age inp + y,
                 pt_wealth = Math_max (wealth * (Fin 1 + Fin (returnBefore inp)) + savingsStep inp) (Fin 0),
                 pt_draw = None\<rparr>])).
            (pt_draw pt \<noteq> None) = (retireAge inp \<le> pt_age pt)"
        using a "1.prems" by (intro "1.IH"(1)[OF True refl a refl]) auto
      then show ?thesis
        unfolding chartLoop_unfold[OF True] using a by simp
    next
      case a: False
      have "\<forall>pt\<in>set (chartLoop inp (y + 1)
              (wealth * (Fin 1 + Fin (returnAfter inp)) - need_at inp (age inp + y))
              (data @ [\<lparr>pt_age = age inp + y,
                 pt_wealth = Math_max (wealth * (Fin 1 + Fin (returnAfter inp)) - need_at inp (age inp + y)) (Fin 0),
                 pt_draw = Some (need_at inp (age inp + y))\<rparr>])).
            (pt_draw pt \<noteq> None) = (retireAge inp \<le> pt_age pt)"
        using a "1.prems" by (intro "1.IH"(2)[OF True refl a refl refl]) auto
      then show ?thesis
        unfolding chartLoop_unfold[OF True] using a by simp
    qed
  next
    case False
    then show ?thesis using "1.prems" by (simp add: chartLoop_done)
  qed
qed





text \<open>
  C2. For every input with \<open>age \<le> retireAge \<le> lifeExpectancy\<close> the curve has exactly
  \<open>lifeExpectancy - age + 1\<close> records, the record at index \<open>i\<close> has age \<open>age + i\<close>
  (the ages start at the current age and grow by one), and a record carries a
  withdrawal exactly when its age is at least \<open>retireAge\<close>.
\<close>

theorem trajectory_shape:
  assumes "age inp \<le> retireAge inp" and "retireAge inp \<le> lifeExpectancy inp"
  shows "int (length (chartData inp)) = lifeExpectancy inp - age inp + 1
    \<and> (\<forall>i<length (chartData inp). pt_age (chartData inp ! i) = age inp + int i)
    \<and> (\<forall>pt\<in>set (chartData inp). (pt_draw pt \<noteq> None) = (retireAge inp \<le> pt_age pt))"
proof -
  have ages: "map pt_age (chartData inp) = [age inp..lifeExpectancy inp]"
    using chartLoop_ages[of inp 0 "netAssets inp" "[]"] by (simp add: chartData_def)
  have len: "length (chartData inp) = nat (lifeExpectancy inp - age inp + 1)"
    using arg_cong[OF ages, of length] by simp
  have nth: "pt_age (chartData inp ! i) = age inp + int i" if "i < length (chartData inp)" for i
  proof -
    have "pt_age (chartData inp ! i) = map pt_age (chartData inp) ! i"
      using that by simp
    also have "\<dots> = age inp + int i"
      using that len by (simp add: ages)
    finally show ?thesis .
  qed
  have draw: "\<forall>pt\<in>set (chartData inp). (pt_draw pt \<noteq> None) = (retireAge inp \<le> pt_age pt)"
    unfolding chartData_def by (rule chartLoop_draw) simp
  show ?thesis using assms len nth draw by simp
qed

theorem trajectory_shape_witness:
  "age defaultInputs \<le> retireAge defaultInputs
   \<and> retireAge defaultInputs \<le> lifeExpectancy defaultInputs
   \<and> length (chartData defaultInputs) = 55
   \<and> pt_age (chartData defaultInputs ! 0) = 36
   \<and> pt_age (chartData defaultInputs ! 54) = 90
   \<and> pt_draw (chartData defaultInputs ! 23) = None
   \<and> pt_age (chartData defaultInputs ! 24) = 60
   \<and> pt_draw (chartData defaultInputs ! 24) \<noteq> None"
proof -
  have h: "age defaultInputs \<le> retireAge defaultInputs"
    "retireAge defaultInputs \<le> lifeExpectancy defaultInputs"
    by (simp_all add: defaultInputs_def)
  note t = trajectory_shape[OF h]
  have len: "length (chartData defaultInputs) = 55"
    using t by (simp add: defaultInputs_def)
  have nth: "pt_age (chartData defaultInputs ! i) = 36 + int i" if "i < 55" for i
    using t that len by (simp add: defaultInputs_def)
  have draw: "(pt_draw (chartData defaultInputs ! i) \<noteq> None) = (60 \<le> 36 + int i)"
    if "i < 55" for i
  proof -
    have "chartData defaultInputs ! i \<in> set (chartData defaultInputs)"
      using that len by simp
    with t have "(pt_draw (chartData defaultInputs ! i) \<noteq> None)
        = (retireAge defaultInputs \<le> pt_age (chartData defaultInputs ! i))"
      by blast
    then show ?thesis using nth[OF that] by (simp add: defaultInputs_def)
  qed
  show ?thesis
    using h len nth[of 0] nth[of 54] nth[of 24] draw[of 23] draw[of 24] by simp
qed

lemma savingsStep_goals: "savingsStep (inp\<lparr>goals := gs\<rparr>) = savingsStep inp"
  by (simp add: savingsStep_def incomeYear_def)

lemma need_at_goals: "need_at (inp\<lparr>goals := gs\<rparr>) a = need_at inp a"
  by (simp add: need_at_def annualExpenseAtRetire_def annualExpenseToday_def
      monthlyExpense_def yearsToRetire_def)

lemma netAssets_goals: "netAssets (inp\<lparr>goals := gs\<rparr>) = netAssets inp"
  by (simp add: netAssets_def)

lemma chartLoop_goals: "chartLoop (inp\<lparr>goals := gs\<rparr>) y w data = chartLoop inp y w data"
proof (induction inp y w data rule: chartLoop.induct)
  case (1 inp y wealth data)
  show ?case
  proof (cases "y \<le> lifeExpectancy inp - age inp")
    case True
    then have True': "y \<le> lifeExpectancy (inp\<lparr>goals := gs\<rparr>) - age (inp\<lparr>goals := gs\<rparr>)"
      by simp
    show ?thesis
    proof (cases "age inp + y < retireAge inp")
      case a: True
      show ?thesis
        unfolding chartLoop_unfold[OF True] chartLoop_unfold[OF True']
        using a "1.IH"(1)[OF True refl a refl]
        by (simp add: savingsStep_goals)
    next
      case a: False
      show ?thesis
        unfolding chartLoop_unfold[OF True] chartLoop_unfold[OF True']
        using a "1.IH"(2)[OF True refl a refl refl]
        by (simp add: need_at_goals)
    qed
  next
    case False
    then show ?thesis by (simp add: chartLoop_done)
  qed
qed

lemma projected_default:
  "projectedFVAtRetire (defaultInputs\<lparr>goals := []\<rparr>) \<noteq> projectedFVAtRetire defaultInputs"
  by (simp add: projectedFVAtRetire_def fv_def fvSeries_def spendGoals_def netAssets_Fin
      yearlySaving_def incomeYear_def Math_pow_def js_eq_def Math_max_Fin yearsToRetire_def
      defaultInputs_def Let_def power_divide)

text \<open>
  C8. The wealth curve does not depend on the goals: replacing the goals of any input
  by any other list of goals leaves \<open>chartData\<close> unchanged, although the projected
  corpus does depend on them (removing the goals of the initial state changes it).
\<close>

theorem trajectory_ignores_goals:
  "chartData (inp\<lparr>goals := gs\<rparr>) = chartData inp
   \<and> projectedFVAtRetire (defaultInputs\<lparr>goals := []\<rparr>) \<noteq> projectedFVAtRetire defaultInputs"
  by (simp add: chartData_def chartLoop_goals netAssets_goals projected_default)





section \<open>The required level contribution\<close>









section \<open>Non-negative outputs\<close>

text \<open>
  C1. All monetary outputs are meant to be non-negative. The wealth values of the
  curve, the projected corpus and both covers are results of \<open>Math.max(_, 0)\<close>. The
  required saving is not clamped after the division, and \<open>requiredSavingsPerYear\<close>
  has no test for \<open>years \<le> 0\<close> (\<open>fvSeries\<close> and \<open>annuityCorpus\<close> have one): for the
  person who retires now with a pre-retirement return of -1 percent the gap is
  positive, its product with the rate is negative and the divisor \<open>(1 + r)^0 - 1\<close> is
  zero, so the required saving per year and per month is minus infinity.
\<close>

theorem requiredSaving_minus_infinity:
  "0 \<le> age retireNowInputs \<and> age retireNowInputs \<le> retireAge retireNowInputs
   \<and> retireAge retireNowInputs \<le> lifeExpectancy retireNowInputs
   \<and> - 1 \<le> inflation retireNowInputs \<and> - 1 \<le> returnBefore retireNowInputs
   \<and> - 1 \<le> returnAfter retireNowInputs
   \<and> 0 \<le> incomeMain retireNowInputs \<and> 0 \<le> incomeSide retireNowInputs
   \<and> 0 \<le> expBasic retireNowInputs \<and> 0 \<le> expHealth retireNowInputs
   \<and> 0 \<le> expLifestyle retireNowInputs
   \<and> 0 \<le> currentAssets retireNowInputs \<and> 0 \<le> currentDebt retireNowInputs
   \<and> yearsToRetire retireNowInputs = 0
   \<and> requiredSavingPerYear retireNowInputs = NInf
   \<and> requiredSavingPerMonth retireNowInputs = NInf
   \<and> \<not> Fin 0 \<le> requiredSavingPerMonth retireNowInputs"
  by (simp add: requiredSavingPerMonth_def requiredSavingPerYear_def requiredSavingsPerYear_def
      targetCorpus_def annuityCorpus_def annualExpenseAtRetire_Fin netAssets_Fin fv_def
      Math_pow_def Math_max_def js_eq_def num_def yearsToRetire_def yearsInRetirement_def
      retireNowInputs_def shortRetirement_def defaultInputs_def Let_def power_divide)

section \<open>Scaling of the currency\<close>

lemma scale_add: "0 < k \<Longrightarrow> Fin k * (a + b) = Fin k * a + Fin k * b"
  by (cases a; cases b) (simp_all add: algebra_simps)

lemma scale_sub: "0 < k \<Longrightarrow> Fin k * (a - b) = Fin k * a - Fin k * b"
  by (cases a; cases b) (simp_all add: algebra_simps)

lemma scale_mul: "0 < k \<Longrightarrow> Fin k * (a * b) = (Fin k * a) * b"
  by (cases a; cases b) (auto simp: algebra_simps zero_less_mult_iff)

lemma scale_mul_Fin: "0 < k \<Longrightarrow> Fin (k * t) * b = Fin k * (Fin t * b)"
  using scale_mul[of k "Fin t" b] by simp

lemma scale_max0: "0 < k \<Longrightarrow> Fin k * Math_max a (Fin 0) = Math_max (Fin k * a) (Fin 0)"
  by (cases a) (auto simp: Math_max_def zero_le_mult_iff mult_le_0_iff)

lemma scale_pos: "0 < k \<Longrightarrow> (Fin 0 < Fin k * t) = (Fin 0 < t)"
  by (cases t) (simp_all add: zero_less_mult_iff)

lemma scale_div: "0 < k \<Longrightarrow> Fin 0 < t \<Longrightarrow> (Fin k * p) / (Fin k * t) = p / t"
  by (cases t; cases p) (auto simp: zero_le_mult_iff)

lemma scale_foldl:
  "0 < k \<Longrightarrow> foldl (\<lambda>a b. a + b) (Fin k * z) (map (\<lambda>x. Fin k * f x) xs)
     = Fin k * foldl (\<lambda>a b. a + b) z (map f xs)"
  by (induction xs arbitrary: z) (simp_all add: scale_add[symmetric])

lemma scale_foldl0:
  "0 < k \<Longrightarrow> foldl (\<lambda>a b. a + b) (Fin 0) (map (\<lambda>x. Fin k * f x) xs)
     = Fin k * foldl (\<lambda>a b. a + b) (Fin 0) (map f xs)"
  using scale_foldl[of k "Fin 0" f xs] by simp

lemma annuityCorpus_scale:
  "0 < k \<Longrightarrow> annuityCorpus (Fin k * a) r y = Fin k * annuityCorpus a r y"
  by (simp add: annuityCorpus_def Let_def scale_mul)

lemma fv_scale: "0 < k \<Longrightarrow> fv (Fin k * a) r n = Fin k * fv a r n"
  by (simp add: fv_def scale_mul)

lemma fvSeries_scale: "0 < k \<Longrightarrow> fvSeries (Fin k * a) r n = Fin k * fvSeries a r n"
  by (simp add: fvSeries_def scale_mul)

lemma annualExpenseAtRetire_scale:
  "annualExpenseAtRetire (scaleCurrency k inp) = Fin k * annualExpenseAtRetire inp"
  by (simp add: annualExpenseAtRetire_Fin scaleCurrency_def yearsToRetire_def algebra_simps)

lemma netAssets_scale: "0 < k \<Longrightarrow> netAssets (scaleCurrency k inp) = Fin k * netAssets inp"
  using scale_max0[of k "Fin (currentAssets inp) - Fin (currentDebt inp)"]
  by (simp add: netAssets_def scaleCurrency_def algebra_simps)

lemma yearlySaving_scale: "yearlySaving (scaleCurrency k inp) = Fin k * yearlySaving inp"
  by (simp add: yearlySaving_def incomeYear_def scaleCurrency_def algebra_simps)

lemma spendGoals_scale:
  assumes "0 < k"
  shows "spendGoals (scaleCurrency k inp) = Fin k * spendGoals inp"
proof -
  have "spendGoals (scaleCurrency k inp)
      = foldl (\<lambda>a b. a + b) (Fin 0)
          (map (\<lambda>g. Fin k * (Fin (goal_target g)
                 * Math_pow (Fin 1 + Fin (inflation inp)) (goal_year g - thisYear inp)))
            (filter (\<lambda>g. goal_year g \<le> thisYear inp + yearsToRetire inp) (goals inp)))"
    using assms
    by (simp add: spendGoals_def scaleCurrency_def yearsToRetire_def filter_map comp_def
        scale_mul_Fin)
  also have "\<dots> = Fin k * spendGoals inp"
    unfolding spendGoals_def by (rule scale_foldl0[OF assms])
  finally show ?thesis .
qed

lemma targetCorpus_scale:
  assumes "0 < k"
  shows "targetCorpus (scaleCurrency k inp) = Fin k * targetCorpus inp"
proof -
  have y: "yearsInRetirement (scaleCurrency k inp) = yearsInRetirement inp"
    and r: "returnAfter (scaleCurrency k inp) = returnAfter inp"
    by (simp_all add: yearsInRetirement_def scaleCurrency_def)
  show ?thesis
    unfolding targetCorpus_def y r annualExpenseAtRetire_scale
    by (rule annuityCorpus_scale[OF assms])
qed

lemma projected_scale:
  assumes "0 < k"
  shows "projectedFVAtRetire (scaleCurrency k inp) = Fin k * projectedFVAtRetire inp"
proof -
  have y: "yearsToRetire (scaleCurrency k inp) = yearsToRetire inp"
    and r: "returnBefore (scaleCurrency k inp) = returnBefore inp"
    by (simp_all add: yearsToRetire_def scaleCurrency_def)
  show ?thesis
    unfolding projectedFVAtRetire_def Let_def y r
    by (simp only: netAssets_scale[OF assms] yearlySaving_scale spendGoals_scale[OF assms]
        fv_scale[OF assms] fvSeries_scale[OF assms] scale_add[OF assms, symmetric]
        scale_sub[OF assms, symmetric] scale_max0[OF assms])
qed

text \<open>
  C4. In exact arithmetic, for every positive \<open>k\<close>, multiplying all currency inputs by
  \<open>k\<close> multiplies the target corpus and the projected corpus by \<open>k\<close> and leaves the
  readiness ratio unchanged.
\<close>

theorem currency_scaling:
  assumes "0 < k"
  shows "targetCorpus (scaleCurrency k inp) = Fin k * targetCorpus inp
    \<and> projectedFVAtRetire (scaleCurrency k inp) = Fin k * projectedFVAtRetire inp
    \<and> readiness (scaleCurrency k inp) = readiness inp"
  using assms
  by (simp add: readiness_def targetCorpus_scale projected_scale scale_pos scale_div)

theorem currency_scaling_witness:
  "(0::real) < 3
   \<and> targetCorpus (scaleCurrency 3 defaultInputs) = Fin 3 * targetCorpus defaultInputs
   \<and> projectedFVAtRetire (scaleCurrency 3 defaultInputs) = Fin 3 * projectedFVAtRetire defaultInputs
   \<and> readiness (scaleCurrency 3 defaultInputs) = readiness defaultInputs"
proof -
  have h: "(0::real) < 3" by simp
  from currency_scaling[OF h, of defaultInputs] h show ?thesis by simp
qed

text \<open>
  On doubles the scaling is not exact. For the person one year before retirement with
  an income of 15000 and a contribution rate of 0.07 the projected corpus is
  \<open>12600 + 2^-39\<close> (the product \<open>180000 * 0.07\<close> is rounded up); with all amounts tripled
  it is 37800, which is neither three times the former nor the double nearest to it.
\<close>

lemma rounded_triple: "mul64 (Fin 3) (Fin (12600 + 1 / 2 ^ 39)) = Fin (37800 + 1 / 2 ^ 37)"
  by (simp add: mul64_def rnd_eval)

theorem currency_scaling_rounded_counterexample:
  "(0::real) < 3
   \<and> projectedFVAtRetire64 roundingInputs = Fin (12600 + 1 / 2 ^ 39)
   \<and> projectedFVAtRetire64 (scaleCurrency 3 roundingInputs) = Fin 37800
   \<and> Fin 3 * Fin (12600 + 1 / 2 ^ 39) \<noteq> Fin 37800
   \<and> mul64 (Fin 3) (Fin (12600 + 1 / 2 ^ 39)) \<noteq> Fin 37800
   \<and> projectedFVAtRetire64 (scaleCurrency 3 roundingInputs)
       \<noteq> Fin 3 * projectedFVAtRetire64 roundingInputs
   \<and> projectedFVAtRetire64 (scaleCurrency 3 roundingInputs)
       \<noteq> mul64 (Fin 3) (projectedFVAtRetire64 roundingInputs)"
proof -
  have a: "Fin 3 * Fin (12600 + 1 / 2 ^ 39) \<noteq> Fin 37800"
    by simp
  have b: "mul64 (Fin 3) (Fin (12600 + 1 / 2 ^ 39)) \<noteq> Fin 37800"
    unfolding rounded_triple by simp
  show ?thesis
    unfolding roundingInputs_projected64 roundingInputs_scaled_projected64
    using a b by (simp del: power_numeral)
qed

section \<open>The sampler\<close>

lemma rejectZero_nonzero_start: "u \<noteq> 0 \<Longrightarrow> rejectZero src u p = Some (u, p)"
  by (subst rejectZero.simps) simp

lemma rejectZero_zero_start: "rejectZero src 0 p = rejectZero src (src p) (Suc p)"
  by (subst rejectZero.simps) simp

lemma rejectZero_result:
  assumes "rejectZero src u p = Some r"
  shows "fst r \<noteq> 0 \<and> p \<le> snd r \<and> (fst r = u \<or> (\<exists>n. fst r = src n))"
proof (rule rejectZero.raw_induct[OF _ assms,
      where P = "\<lambda>g x i y. fst y \<noteq> 0 \<and> i \<le> snd y \<and> (fst y = x \<or> (\<exists>n. fst y = g n))"])
  fix f :: "(nat \<Rightarrow> real) \<Rightarrow> real \<Rightarrow> nat \<Rightarrow> (real \<times> nat) option" and g x i y
  assume IH: "\<And>g x i y. f g x i = Some y \<Longrightarrow>
      fst y \<noteq> 0 \<and> i \<le> snd y \<and> (fst y = x \<or> (\<exists>n. fst y = g n))"
    and eq: "(if x = 0 then f g (g i) (Suc i) else Some (x, i)) = Some y"
  show "fst y \<noteq> 0 \<and> i \<le> snd y \<and> (fst y = x \<or> (\<exists>n. fst y = g n))"
  proof (cases "x = 0")
    case True
    with eq have "f g (g i) (Suc i) = Some y" by simp
    from IH[OF this] show ?thesis by auto
  next
    case False
    with eq show ?thesis by auto
  qed
qed

lemma rejectZero_returns:
  "src n \<noteq> 0 \<Longrightarrow> p \<le> n \<Longrightarrow> \<exists>r. rejectZero src 0 p = Some r"
proof (induction "n - p" arbitrary: p)
  case 0
  then have "p = n" by simp
  then show ?case
    using "0.prems"(1) by (simp add: rejectZero_zero_start rejectZero_nonzero_start)
next
  case (Suc k)
  show ?case
  proof (cases "src p = 0")
    case True
    have "\<exists>r. rejectZero src 0 (Suc p) = Some r"
      using Suc.hyps Suc.prems by (intro Suc.hyps(1)) auto
    then show ?thesis
      using True rejectZero_zero_start[of src p] by simp
  next
    case False
    then show ?thesis
      by (simp add: rejectZero_zero_start rejectZero_nonzero_start)
  qed
qed

lemma uniformDraws_returns:
  assumes "fairSource src"
  shows "\<exists>u v q. uniformDraws src p = Some (u, v, q)"
proof -
  obtain n where "p \<le> n" "src n \<noteq> 0" using assms by (auto simp: fairSource_def)
  then obtain u p1 where 1: "rejectZero src 0 p = Some (u, p1)"
    using rejectZero_returns[of src n p] by auto
  obtain m where "p1 \<le> m" "src m \<noteq> 0" using assms by (auto simp: fairSource_def)
  then obtain v p2 where 2: "rejectZero src 0 p1 = Some (v, p2)"
    using rejectZero_returns[of src m p1] by auto
  show ?thesis by (simp add: uniformDraws_def 1 2)
qed

lemma uniformDraws_positive:
  assumes "\<forall>n. 0 \<le> src n \<and> src n < 1" and "uniformDraws src p = Some (u, v, q)"
  shows "0 < u \<and> u < 1 \<and> 0 < v \<and> v < 1"
proof -
  from assms(2) obtain p1 where 1: "rejectZero src 0 p = Some (u, p1)"
    and 2: "rejectZero src 0 p1 = Some (v, q)"
    by (auto simp: uniformDraws_def split: option.splits)
  from rejectZero_result[OF 1] obtain n where "u \<noteq> 0" "u = src n" by auto
  moreover from rejectZero_result[OF 2] obtain m where "v \<noteq> 0" "v = src m" by auto
  ultimately show ?thesis
    using assms(1)[rule_format, of n] assms(1)[rule_format, of m] by auto
qed

lemma boxMuller_finite:
  assumes "0 < u" "u < 1"
  shows "boxMuller u v = Fin (sqrt (- 2 * ln u) * cos (2 * pi * v))"
proof -
  have "ln u < 0" using assms by simp
  then have "0 \<le> - 2 * ln u" by simp
  then show ?thesis
    using assms(1) by (simp add: boxMuller_def Math_log_def Math_sqrt_def Math_cos_def Math_PI_def)
qed

text \<open>
  C9. If the random source only produces values in \<open>[0, 1)\<close>, then whenever the two
  rejection loops of \<open>randomNormal\<close> end, both draws are strictly positive, so the
  logarithm is taken of a strictly positive number and its result is finite (the
  value minus infinity of \<open>Math.log(0)\<close> cannot occur); the sample is then the finite
  number given by the Box-Muller formula. On a fair source the loops do end.
\<close>

theorem sampler_log_argument_positive:
  assumes "\<forall>n. 0 \<le> src n \<and> src n < 1"
  shows "(uniformDraws src p = Some (u, v, q) \<longrightarrow>
            0 < u \<and> 0 < v \<and> Math_log (Fin u) = Fin (ln u)
            \<and> randomNormal src (Fin mean) (Fin stdev) p
                = Some (Fin (mean + sqrt (- 2 * ln u) * cos (2 * pi * v) * stdev), q))
       \<and> (fairSource src \<longrightarrow> (\<exists>u v q. uniformDraws src p = Some (u, v, q)))"
proof (intro conjI impI)
  assume d: "uniformDraws src p = Some (u, v, q)"
  from uniformDraws_positive[OF assms d] have pos: "0 < u" "u < 1" "0 < v" by simp_all
  show "0 < u" "0 < v" by (rule pos)+
  show "Math_log (Fin u) = Fin (ln u)" using pos by (simp add: Math_log_def)
  show "randomNormal src (Fin mean) (Fin stdev) p
        = Some (Fin (mean + sqrt (- 2 * ln u) * cos (2 * pi * v) * stdev), q)"
    by (simp add: randomNormal_def d boxMuller_finite[OF pos(1,2)])
next
  assume "fairSource src"
  then show "\<exists>u v q. uniformDraws src p = Some (u, v, q)" by (rule uniformDraws_returns)
qed

lemma uniformDraws_half: "uniformDraws (\<lambda>n. 1 / 2) p = Some (1 / 2, 1 / 2, Suc (Suc p))"
  by (simp add: uniformDraws_def rejectZero_zero_start rejectZero_nonzero_start)

theorem sampler_log_argument_positive_witness:
  "uniformDraws (\<lambda>n. 1 / 2) 0 = Some (1 / 2, 1 / 2, 2)
   \<and> (0::real) < 1 / 2 \<and> Math_log (Fin (1 / 2)) = Fin (ln (1 / 2))
   \<and> fairSource (\<lambda>n. 1 / 2)"
proof -
  have r: "\<forall>n. 0 \<le> (\<lambda>n::nat. 1 / 2 :: real) n \<and> (\<lambda>n::nat. 1 / 2 :: real) n < 1" by simp
  have d: "uniformDraws (\<lambda>n. 1 / 2) 0 = Some (1 / 2, 1 / 2, 2)"
    using uniformDraws_half[of 0] by (simp add: numeral_2_eq_2)
  have f: "fairSource (\<lambda>n. 1 / 2)" by (auto simp: fairSource_def)
  from sampler_log_argument_positive[OF r, of 0 "1 / 2" "1 / 2" 2 0 0] d f
  show ?thesis by simp
qed

section \<open>The Monte Carlo estimator\<close>




















end
